theory Spec2Isabelle
  imports Main "HOL-Library.Sublist" "HOL-Library.AList"
begin

section \<open>JavaScript values used by the task server\<close>

text \<open>
  Strings are modelled as \<open>string\<close> (a list of 8-bit characters; a character outside
  ASCII is its UTF-8 bytes). The built-in \<open>String.prototype.toLowerCase\<close> is not
  defined here: it is taken from the runtime as a function on strings (the field
  \<open>toLowerCase\<close> of \<open>Host\<close> below), so that what is proved holds for the lower-casing
  the runtime really does, on every string.
\<close>

text \<open>\<open>s.includes(f)\<close>: does \<open>f\<close> occur in \<open>s\<close> as a contiguous run?\<close>

fun includes_str :: "string \<Rightarrow> string \<Rightarrow> bool" where
  "includes_str [] f = (f = [])"
| "includes_str (c # s) f = (prefix f (c # s) \<or> includes_str s f)"

text \<open>\<open>xs.join(sep)\<close> on an array of strings.\<close>

fun join :: "string \<Rightarrow> string list \<Rightarrow> string" where
  "join sep [] = []"
| "join sep [x] = x"
| "join sep (x # y # ys) = x @ sep @ join sep (y # ys)"

text \<open>Truthiness of an optional string: \<open>undefined\<close> and \<open>''\<close> are falsy.\<close>

fun truthy :: "string option \<Rightarrow> bool" where
  "truthy None = False"
| "truthy (Some s) = (s \<noteq> [])"

text \<open>Decimal rendering of an integer inside a template literal.\<close>

definition digit :: "nat \<Rightarrow> char" where
  "digit d = ''0123456789'' ! d"

fun showNat :: "nat \<Rightarrow> string" where
  "showNat n = (if n < 10 then [digit n] else showNat (n div 10) @ [digit (n mod 10)])"

definition showInt :: "int \<Rightarrow> string" where
  "showInt i = (if i < 0 then CHR ''-'' # showNat (nat (- i)) else showNat (nat i))"

definition showBool :: "bool \<Rightarrow> string" where
  "showBool b = (if b then ''true'' else ''false'')"

text \<open>An optional string inside a template literal.\<close>

fun templateOpt :: "string option \<Rightarrow> string" where
  "templateOpt None = ''undefined''"
| "templateOpt (Some s) = s"

text \<open>
  Pieces of the message templates: \<open>quoted s\<close> is \<open>s\<close> between single quotes, \<open>nl\<close>
  the line feed, \<open>bullet\<close> the character U+2022 in UTF-8.
\<close>

definition quoted :: "string \<Rightarrow> string" where
  "quoted s = CHR 0x27 # s @ [CHR 0x27]"

definition nl :: string where
  "nl = [CHR 0x0A]"

definition bullet :: string where
  "bullet = [CHR 0xE2, CHR 0x80, CHR 0xA2]"

text \<open>
  A thrown value: an \<open>Error\<close> object with its message, or any other thrown value.
  \<open>message\<close> is the expression
  \<^verbatim>\<open>error instanceof Error ? error.message : 'Unknown error'\<close>
  that every \<open>catch\<close> block of the sources uses.
\<close>

datatype exn = Error string | Thrown

fun message :: "exn \<Rightarrow> string" where
  "message (Error m) = m"
| "message Thrown = ''Unknown error''"

text \<open>
  The state of a promise when observation stops: resolved, rejected, or not settled by
  any callback that ran.
\<close>

datatype 'a promise = Resolved 'a | Rejected exn | Pending

section \<open>The host's task objects (the fields of \<open>vscode.Task\<close> that the code reads)\<close>

datatype TaskScope = Global | Workspace | WorkspaceFolder string

datatype ShellString = Str string | ShellQuotedString string

datatype Execution =
    ShellExecution "string option" "ShellString option" "ShellString list option"
  | ProcessExecution string "string list option"
  | CustomExecution

text \<open>
  \<open>groupKind\<close> is the value of \<^verbatim>\<open>task.group?.kind\<close>; \<open>taskDefinition\<close> stands for the
  provider's opaque payload and holds its rendering by \<^verbatim>\<open>JSON.stringify(d, null, 2)\<close>.
\<close>

record Task =
  name :: string
  source :: string
  groupKind :: "string option"
  scope :: "TaskScope option"
  taskDefinition :: string
  execution :: "Execution option"
  isBackground :: bool
  problemMatchers :: "string list"

section \<open>types.ts\<close>

datatype ExecutionType = shell | process | custom

record ExecutionInfo =
  type :: ExecutionType
  command :: "string option"
  args :: "string list option"

record TaskInfo =
  name :: string
  source :: string
  group :: "string option"
  scope :: string
  taskDefinition :: string
  execution :: "ExecutionInfo option"
  isBackground :: "bool option"
  problemMatchers :: "string list option"

record TaskExecutionResult =
  taskName :: string
  exitCode :: "int option"
  success :: bool
  taskOutput :: "string option"
  error :: "string option"
  duration :: int

text \<open>
  The result of a tool: \<open>content\<close> is the text of its single content block, beside the optional
  \<open>isError\<close> flag.
\<close>

record Outcome =
  content :: string
  isError :: "bool option"

section \<open>taskProvider.js: the execution tracker\<close>

text \<open>
  The calls to the logger are left out throughout: they read the values at hand and
  write to the output channel, and touch neither map of the tracker.

  The two \<open>Map\<close>s of \<open>TaskProvider\<close>, as association lists in insertion order:
  \<open>Map.set\<close> is \<open>AList.update\<close> (an existing key keeps its place, a new key goes to the
  end), \<open>Map.delete\<close> is \<open>AList.delete\<close>, \<open>Map.get\<close> is \<open>map_of\<close>. The stored
  execution object is represented by its task.
\<close>

record TaskProvider =
  taskExecutions :: "(string \<times> Task) list"
  executionResults :: "(string \<times> TaskExecutionResult) list"

definition has :: "(string \<times> 'a) list \<Rightarrow> string \<Rightarrow> bool" where
  "has m k = (map_of m k \<noteq> None)"

text \<open>
  \<^verbatim>\<open>`${task.source}-${task.name}-${task.scope}`\<close>: the scope is interpolated as the host
  gives it (\<open>TaskScope.Global = 1\<close>, \<open>TaskScope.Workspace = 2\<close>, a workspace folder
  object, or \<open>undefined\<close>).
\<close>

fun templateScope :: "TaskScope option \<Rightarrow> string" where
  "templateScope None = ''undefined''"
| "templateScope (Some Global) = ''1''"
| "templateScope (Some Workspace) = ''2''"
| "templateScope (Some (WorkspaceFolder n)) = ''[object Object]''"

definition getTaskId :: "Task \<Rightarrow> string" where
  "getTaskId task = Task.source task @ ''-'' @ Task.name task @ ''-'' @ templateScope (Task.scope task)"

text \<open>
  One run of the closure \<open>checkCompletion\<close> at clock reading \<open>now\<close>: it resolves the
  promise (\<open>Some\<close>) or sets its timer again (\<open>None\<close>).
\<close>

definition checkCompletion ::
  "TaskProvider \<Rightarrow> string \<Rightarrow> string \<Rightarrow> int \<Rightarrow> int \<Rightarrow> TaskProvider \<times> TaskExecutionResult option" where
  "checkCompletion tp taskId tName startTime now =
     (case map_of (executionResults tp) taskId of
        Some result \<Rightarrow>
          (tp\<lparr>executionResults := AList.delete taskId (executionResults tp)\<rparr>, Some result)
      | None \<Rightarrow>
          if has (taskExecutions tp) taskId then (tp, None)
          else (tp, Some \<lparr>taskName = tName, exitCode = None, success = True,
                           taskOutput = None, error = None, duration = now - startTime\<rparr>))"

text \<open>
  What the event loop runs between two timers of a call and what changes the tracker:
  the lifecycle events of the host, and the completion check of another pending call of
  \<open>executeTask\<close> (the same closure with that call's \<open>taskId\<close>, \<open>taskName\<close>, \<open>startTime\<close>
  and clock reading; no timer of a call is ever cleared, so a call that was rejected by
  its timeout keeps checking). \<open>DidEndTask\<close> carries the two readings of \<open>Date.now()\<close>
  that its listener takes; \<open>DidEndTaskProcess\<close> carries \<open>e.exitCode\<close>, which the host
  may leave \<open>undefined\<close>.
\<close>

datatype Event =
    DidStartTask Task
  | DidEndTask Task int int
  | DidStartTaskProcess Task int
  | DidEndTaskProcess Task "int option"
  | OtherCheckCompletion string string int int

fun handleEvent :: "TaskProvider \<Rightarrow> Event \<Rightarrow> TaskProvider" where
  "handleEvent tp (DidStartTask task) =
     tp\<lparr>taskExecutions := AList.update (getTaskId task) task (taskExecutions tp)\<rparr>"
| "handleEvent tp (DidEndTask task startTime now) =
     (let taskId = getTaskId task;
          result = \<lparr>taskName = Task.name task, exitCode = None, success = True,
                    taskOutput = None, error = None, duration = now - startTime\<rparr>
      in tp\<lparr>executionResults := AList.update taskId result (executionResults tp),
            taskExecutions := AList.delete taskId (taskExecutions tp)\<rparr>)"
| "handleEvent tp (DidStartTaskProcess task processId) = tp"
| "handleEvent tp (DidEndTaskProcess task code) =
     (let taskId = getTaskId task
      in case map_of (executionResults tp) taskId of
           Some result \<Rightarrow>
             tp\<lparr>executionResults :=
                  AList.update taskId (result\<lparr>exitCode := code, success := (code = Some 0)\<rparr>)
                    (executionResults tp)\<rparr>
         | None \<Rightarrow> tp)"
| "handleEvent tp (OtherCheckCompletion taskId tName startTime now) =
     fst (checkCompletion tp taskId tName startTime now)"

definition handleEvents :: "TaskProvider \<Rightarrow> Event list \<Rightarrow> TaskProvider" where
  "handleEvents tp evs = foldl handleEvent tp evs"

text \<open>
  What this model takes from the host and the runtime for one call: the result of
  \<open>vscode.tasks.fetchTasks()\<close>, whether \<open>vscode.tasks.executeTask(task)\<close> and
  \<open>execution.terminate()\<close> throw, the list \<open>vscode.tasks.taskExecutions\<close>, the reading
  of \<open>Date.now()\<close> taken as \<open>startTime\<close> by \<open>executeTask\<close>, the order in which the
  event loop runs the timers of the call, each with the events handled since the
  previous one, and the built-in \<open>String.prototype.toLowerCase\<close>.
\<close>

datatype Timer = CheckCompletion int | Timeout

record Host =
  fetchTasks :: "exn + Task list"
  hostExecuteTask :: "Task \<Rightarrow> exn option"
  hostTerminate :: "Task \<Rightarrow> exn option"
  hostTaskExecutions :: "Task list"
  dateNow :: int
  timers :: "(Event list \<times> Timer) list"
  toLowerCase :: "string \<Rightarrow> string"

text \<open>
  \<open>getScopeString\<close>; its last branch (\<open>'unknown'\<close>) needs a scope that is none of the
  three kinds the host has.
\<close>

fun getScopeString :: "TaskScope \<Rightarrow> string" where
  "getScopeString Global = ''global''"
| "getScopeString Workspace = ''workspace''"
| "getScopeString (WorkspaceFolder n) = ''folder:'' @ n"

fun shellValue :: "ShellString \<Rightarrow> string" where
  "shellValue (Str s) = s"
| "shellValue (ShellQuotedString v) = v"

definition getExecutionInfo :: "Task \<Rightarrow> ExecutionInfo option" where
  "getExecutionInfo task =
     (case Task.execution task of
        Some (ShellExecution commandLine cmd as) \<Rightarrow>
          Some \<lparr>type = shell,
                command = Some (if truthy commandLine then the commandLine
                                else (case cmd of
                                        Some (Str s) \<Rightarrow> s
                                      | Some (ShellQuotedString v) \<Rightarrow> v
                                      | None \<Rightarrow> [])),
                args = Some (case as of None \<Rightarrow> [] | Some l \<Rightarrow> map shellValue l)\<rparr>
      | Some (ProcessExecution p as) \<Rightarrow>
          Some \<lparr>type = process, command = Some p,
                args = Some (case as of None \<Rightarrow> [] | Some l \<Rightarrow> l)\<rparr>
      | Some CustomExecution \<Rightarrow> Some \<lparr>type = custom, command = None, args = None\<rparr>
      | None \<Rightarrow> None)"

text \<open>
  \<open>groupOf\<close> is \<^verbatim>\<open>task.group?.kind || 'none'\<close> and \<open>scopeOf\<close> is
  \<^verbatim>\<open>this.getScopeString(task.scope || vscode.TaskScope.Workspace)\<close>, the two expressions
  that \<open>getAllTasks\<close> and \<open>getRunningTasks\<close> share.
\<close>

definition groupOf :: "Task \<Rightarrow> string" where
  "groupOf task = (if truthy (groupKind task) then the (groupKind task) else ''none'')"

definition scopeOf :: "Task \<Rightarrow> string" where
  "scopeOf task = getScopeString (case Task.scope task of Some sc \<Rightarrow> sc | None \<Rightarrow> Workspace)"

definition getAllTasks :: "Host \<Rightarrow> exn + TaskInfo list" where
  "getAllTasks h =
     (case fetchTasks h of
        Inl e \<Rightarrow> Inl (Error (''Failed to fetch tasks: '' @ message e))
      | Inr tasks \<Rightarrow>
          Inr (map (\<lambda>task. \<lparr>name = Task.name task, source = Task.source task,
                               group = Some (groupOf task), scope = scopeOf task,
                               taskDefinition = Task.taskDefinition task,
                               execution = getExecutionInfo task,
                               isBackground = Some (Task.isBackground task),
                               problemMatchers = Some (Task.problemMatchers task)\<rparr>) tasks))"

text \<open>
  The promise that \<open>executeTask\<close> returns, followed through the timers that fire: the
  100 ms timer runs \<open>checkCompletion\<close>, the 5 minute timer rejects when the task is still
  in \<open>taskExecutions\<close>. The first callback that settles the promise decides it; when the
  timers listed run out before that, the promise is \<open>Pending\<close>. The state returned is the
  tracker's state when the promise settles.
\<close>

fun awaitCompletion ::
  "TaskProvider \<Rightarrow> string \<Rightarrow> string \<Rightarrow> int \<Rightarrow> (Event list \<times> Timer) list
     \<Rightarrow> TaskProvider \<times> TaskExecutionResult promise" where
  "awaitCompletion tp taskId tName startTime [] = (tp, Pending)"
| "awaitCompletion tp taskId tName startTime ((evs, CheckCompletion now) # rest) =
     (case checkCompletion (handleEvents tp evs) taskId tName startTime now of
        (tp', Some result) \<Rightarrow> (tp', Resolved result)
      | (tp', None) \<Rightarrow> awaitCompletion tp' taskId tName startTime rest)"
| "awaitCompletion tp taskId tName startTime ((evs, Timeout) # rest) =
     (let tp' = handleEvents tp evs
      in if has (taskExecutions tp') taskId
         then (tp', Rejected (Error (''Task '' @ quoted tName @ '' timed out after 5 minutes'')))
         else awaitCompletion tp' taskId tName startTime rest)"

text \<open>
  \<open>executeTask\<close>. A failure inside its \<open>try\<close> block is thrown again with the prefix
  \<open>Failed to execute task\<close>; the promise is returned from the \<open>try\<close> block without
  \<open>await\<close>, so its rejection passes the \<open>catch\<close> block unchanged. \<open>findTask\<close> is the
  lookup of \<open>targetTask\<close> at the head of the function, \<open>availableTasks\<close> the string
  of the same name in its \<open>not found\<close> branch.
\<close>

definition findTask :: "Task list \<Rightarrow> string \<Rightarrow> string option \<Rightarrow> Task option" where
  "findTask tasks tName src =
     (let targetTask = find (\<lambda>task. Task.name task = tName) tasks
      in if targetTask = None \<and> truthy src
         then find (\<lambda>task. Task.name task = tName \<and> Some (Task.source task) = src) tasks
         else targetTask)"

definition availableTasks :: "Task list \<Rightarrow> string" where
  "availableTasks tasks = join '', '' (map (\<lambda>t. Task.source t @ '':'' @ Task.name t) tasks)"

definition executeTask ::
  "TaskProvider \<Rightarrow> Host \<Rightarrow> string \<Rightarrow> string option
     \<Rightarrow> TaskProvider \<times> TaskExecutionResult promise" where
  "executeTask tp h tName src =
     (let failed = (\<lambda>e. Rejected (Error (''Failed to execute task '' @ quoted tName @ '': '' @ message e)))
      in case fetchTasks h of
           Inl e \<Rightarrow> (tp, failed e)
         | Inr tasks \<Rightarrow>
             (case findTask tasks tName src of
                None \<Rightarrow>
                  (tp, failed (Error (''Task '' @ quoted tName @ '' not found. Available tasks: ''
                                       @ availableTasks tasks)))
              | Some targetTask \<Rightarrow>
                  (case hostExecuteTask h targetTask of
                     Some e \<Rightarrow> (tp, failed e)
                   | None \<Rightarrow>
                       awaitCompletion tp (getTaskId targetTask) tName (dateNow h) (timers h))))"

definition getRunningTasks :: "Host \<Rightarrow> TaskInfo list" where
  "getRunningTasks h =
     map (\<lambda>task. \<lparr>name = Task.name task, source = Task.source task,
                     group = Some (groupOf task), scope = scopeOf task,
                     taskDefinition = Task.taskDefinition task,
                     execution = getExecutionInfo task,
                     isBackground = Some (Task.isBackground task),
                     problemMatchers = None\<rparr>) (hostTaskExecutions h)"

text \<open>
  \<open>terminateTask\<close>: \<open>Array.from(this.taskExecutions.values())\<close> is the list of stored
  executions in insertion order; a throw inside the \<open>try\<close> block becomes \<open>false\<close>.
\<close>

definition terminateTask :: "TaskProvider \<Rightarrow> Host \<Rightarrow> string \<Rightarrow> bool" where
  "terminateTask tp h tName =
     (case find (\<lambda>exec. Task.name exec = tName) (map snd (taskExecutions tp)) of
        None \<Rightarrow> False
      | Some exec \<Rightarrow> (case hostTerminate h exec of Some e \<Rightarrow> False | None \<Rightarrow> True))"

section \<open>mcpTools.js: the five tools\<close>

text \<open>
  The arguments object of a tool call, with the three properties the tools read, each a
  string when present.
\<close>

record ToolArguments =
  filterArg :: "string option"
  taskNameArg :: "string option"
  sourceArg :: "string option"

record ToolCall =
  toolName :: string
  arguments :: ToolArguments

text \<open>The execution type inside a template literal.\<close>

definition showExecutionType :: "ExecutionType \<Rightarrow> string" where
  "showExecutionType t = (case t of shell \<Rightarrow> ''shell'' | process \<Rightarrow> ''process'' | custom \<Rightarrow> ''custom'')"

text \<open>
  The value of \<open>filteredTasks\<close> in \<open>listTasks\<close>, for the runtime's \<open>toLowerCase\<close>, the
  filter argument and the tasks.
\<close>

definition filteredTasks ::
  "(string \<Rightarrow> string) \<Rightarrow> string option \<Rightarrow> TaskInfo list \<Rightarrow> TaskInfo list" where
  "filteredTasks toLower flt tasks =
     (if truthy flt
      then (let f = toLower (the flt)
            in filter (\<lambda>task. includes_str (toLower (name task)) f \<or>
                              includes_str (toLower (source task)) f \<or>
                              (truthy (group task) \<and> includes_str (toLower (the (group task))) f))
                 tasks)
      else tasks)"

text \<open>\<open>taskLine\<close> is the function that \<open>listTasks\<close> maps over the tasks it shows.\<close>

definition taskLine :: "TaskInfo \<Rightarrow> string" where
  "taskLine task =
     (let executionInfo =
            (case execution task of
               Some ex \<Rightarrow> nl @ ''  Execution: '' @ showExecutionType (type ex) @ '' - '' @
                          (if truthy (command ex) then the (command ex) else ''custom'')
             | None \<Rightarrow> []);
          groupInfo = (if group task \<noteq> Some ''none'' then nl @ ''  Group: '' @ templateOpt (group task) else []);
          scopeInfo = nl @ ''  Scope: '' @ scope task;
          backgroundInfo = (if isBackground task = Some True then nl @ ''  Background: true'' else [])
      in bullet @ '' '' @ name task @ '' ('' @ source task @ '')'' @ executionInfo @ groupInfo @
         scopeInfo @ backgroundInfo)"

text \<open>
  The value of \<open>summary\<close> in \<open>listTasks\<close>, for the filter argument and the tasks in
  \<open>filteredTasks\<close>.
\<close>

definition summary :: "string option \<Rightarrow> TaskInfo list \<Rightarrow> string" where
  "summary flt shown =
     (let taskList = join nl (map taskLine shown)
      in ''Found '' @ showNat (length shown) @ '' tasks'' @
         (if truthy flt then '' matching filter '' @ quoted (the flt) else []) @
         '':'' @ nl @ nl @ taskList)"

definition listTasks :: "Host \<Rightarrow> ToolArguments \<Rightarrow> Outcome promise" where
  "listTasks h as =
     (case getAllTasks h of
        Inl e \<Rightarrow> Rejected e
      | Inr tasks \<Rightarrow>
          Resolved \<lparr>content = summary (filterArg as)
                                (filteredTasks (toLowerCase h) (filterArg as) tasks),
                    isError = None\<rparr>)"

text \<open>The value of \<open>responseText\<close> in the tool \<open>executeTask\<close>.\<close>

definition responseText :: "TaskExecutionResult \<Rightarrow> string" where
  "responseText result =
     (let statusText = (if success result then ''SUCCESS'' else ''FAILED'');
          exitCodeText = (case exitCode result of
                            Some c \<Rightarrow> '' (exit code: '' @ showInt c @ '')''
                          | None \<Rightarrow> []);
          durationText = ''Duration: '' @ showInt (duration result) @ ''ms'';
          outputText = (if truthy (taskOutput result)
                        then nl @ ''Output:'' @ nl @ the (taskOutput result) else []);
          errorText = (if truthy (error result)
                       then nl @ ''Error:'' @ nl @ the (error result) else [])
      in ''Task '' @ quoted (taskName result) @ '' execution '' @ statusText @ exitCodeText @ nl @
         durationText @ outputText @ errorText)"

text \<open>
  The tools \<open>executeTask\<close>, \<open>getRunningTasks\<close> and \<open>terminateTask\<close> of \<open>MCPTools\<close>
  carry the suffix \<open>_tool\<close>, their names being those of the provider's methods they
  call.
\<close>

definition executeTask_tool ::
  "TaskProvider \<Rightarrow> Host \<Rightarrow> ToolArguments \<Rightarrow> TaskProvider \<times> Outcome promise" where
  "executeTask_tool tp h as =
     (if \<not> truthy (taskNameArg as) then (tp, Rejected (Error ''taskName is required''))
      else (case executeTask tp h (the (taskNameArg as)) (sourceArg as) of
              (tp', Resolved result) \<Rightarrow>
                (tp', Resolved \<lparr>content = responseText result, isError = Some (\<not> success result)\<rparr>)
            | (tp', Rejected e) \<Rightarrow> (tp', Rejected e)
            | (tp', Pending) \<Rightarrow> (tp', Pending)))"

definition getRunningTasks_tool :: "Host \<Rightarrow> Outcome promise" where
  "getRunningTasks_tool h =
     (let runningTasks = getRunningTasks h
      in if length runningTasks = 0
         then Resolved \<lparr>content = ''No tasks are currently running.'', isError = None\<rparr>
         else (let taskList =
                     join nl (map (\<lambda>task.
                        bullet @ '' '' @ name task @ '' ('' @ source task @ '')'' @
                        (case execution task of
                           Some ex \<Rightarrow> '' - '' @ showExecutionType (type ex) @ '': '' @
                                      (if truthy (command ex) then the (command ex) else ''custom'')
                         | None \<Rightarrow> [])) runningTasks)
               in Resolved \<lparr>content = ''Currently running tasks ('' @ showNat (length runningTasks) @
                                        ''):'' @ nl @ nl @ taskList,
                             isError = None\<rparr>))"

definition terminateTask_tool :: "TaskProvider \<Rightarrow> Host \<Rightarrow> ToolArguments \<Rightarrow> Outcome promise" where
  "terminateTask_tool tp h as =
     (if \<not> truthy (taskNameArg as) then Rejected (Error ''taskName is required'')
      else (let success = terminateTask tp h (the (taskNameArg as));
                responseText =
                  (if success
                   then ''Task '' @ quoted (the (taskNameArg as)) @ '' has been terminated successfully.''
                   else ''Failed to terminate task '' @ quoted (the (taskNameArg as)) @
                        ''. Task may not be running or termination failed.'')
            in Resolved \<lparr>content = responseText, isError = Some (\<not> success)\<rparr>))"

text \<open>\<open>findTaskInfo\<close> is the lookup of \<open>targetTask\<close> at the head of \<open>getTaskDetails\<close>.\<close>

definition findTaskInfo :: "TaskInfo list \<Rightarrow> string \<Rightarrow> string option \<Rightarrow> TaskInfo option" where
  "findTaskInfo tasks tName src =
     (let targetTask = find (\<lambda>task. name task = tName) tasks
      in if targetTask = None \<and> truthy src
         then find (\<lambda>task. name task = tName \<and> Some (source task) = src) tasks
         else targetTask)"

text \<open>The array \<open>details\<close> that \<open>getTaskDetails\<close> joins with line feeds.\<close>

definition details :: "TaskInfo \<Rightarrow> string list" where
  "details targetTask =
     [''Task Details for '' @ quoted (name targetTask) @ '':'',
      ''Source: '' @ source targetTask,
      ''Group: '' @ (if truthy (group targetTask) then the (group targetTask) else ''none''),
      ''Scope: '' @ scope targetTask,
      ''Background: '' @ showBool (isBackground targetTask = Some True)] @
     (case execution targetTask of
        Some ex \<Rightarrow>
          [''Execution Type: '' @ showExecutionType (type ex)] @
          (if truthy (command ex) then [''Command: '' @ the (command ex)] else []) @
          (case args ex of
             Some l \<Rightarrow> (if length l > 0 then [''Arguments: '' @ join '' '' l] else [])
           | None \<Rightarrow> [])
      | None \<Rightarrow> []) @
     (case problemMatchers targetTask of
        Some l \<Rightarrow> (if length l > 0 then [''Problem Matchers: '' @ join '', '' l] else [])
      | None \<Rightarrow> []) @
     [''Definition: '' @ taskDefinition targetTask]"

definition getTaskDetails :: "Host \<Rightarrow> ToolArguments \<Rightarrow> Outcome promise" where
  "getTaskDetails h as =
     (if \<not> truthy (taskNameArg as) then Rejected (Error ''taskName is required'')
      else (case getAllTasks h of
              Inl e \<Rightarrow> Rejected e
            | Inr tasks \<Rightarrow>
                (case findTaskInfo tasks (the (taskNameArg as)) (sourceArg as) of
                   None \<Rightarrow>
                     Resolved \<lparr>content = ''Task '' @ quoted (the (taskNameArg as)) @ '' not found.'',
                               isError = Some True\<rparr>
                 | Some targetTask \<Rightarrow>
                     Resolved \<lparr>content = join nl (details targetTask), isError = None\<rparr>)))"

text \<open>
  \<open>executeTool\<close>: \<open>dispatch\<close> is the \<open>switch\<close> inside its \<open>try\<close> block, and the \<open>catch\<close>
  block turns a rejection into an outcome.
\<close>

definition dispatch :: "TaskProvider \<Rightarrow> Host \<Rightarrow> ToolCall \<Rightarrow> TaskProvider \<times> Outcome promise" where
  "dispatch tp h toolCall =
     (if toolName toolCall = ''list_tasks'' then (tp, listTasks h (arguments toolCall))
      else if toolName toolCall = ''execute_task'' then executeTask_tool tp h (arguments toolCall)
      else if toolName toolCall = ''get_running_tasks'' then (tp, getRunningTasks_tool h)
      else if toolName toolCall = ''terminate_task'' then (tp, terminateTask_tool tp h (arguments toolCall))
      else if toolName toolCall = ''get_task_details'' then (tp, getTaskDetails h (arguments toolCall))
      else (tp, Rejected (Error (''Unknown tool: '' @ toolName toolCall))))"

definition executeTool :: "TaskProvider \<Rightarrow> Host \<Rightarrow> ToolCall \<Rightarrow> TaskProvider \<times> Outcome promise" where
  "executeTool tp h toolCall =
     (case dispatch tp h toolCall of
        (tp', Rejected e) \<Rightarrow>
          (tp', Resolved \<lparr>content = ''Error executing tool '' @ quoted (toolName toolCall) @ '': '' @
                                     message e,
                           isError = Some True\<rparr>)
      | r \<Rightarrow> r)"

section \<open>mcpServer.js: the dispatcher of \<open>tools/call\<close>\<close>

text \<open>
  The \<open>params\<close> of a \<open>tools/call\<close> request, which may be absent, with the two
  properties that \<open>handleToolsCall\<close> reads.
\<close>

record Params =
  paramsName :: "string option"
  paramsArguments :: "ToolArguments option"

definition handleToolsCall ::
  "TaskProvider \<Rightarrow> Host \<Rightarrow> Params option \<Rightarrow> TaskProvider \<times> Outcome promise" where
  "handleToolsCall tp h params =
     (case params of
        None \<Rightarrow> (tp, Rejected (Error ''Tool name is required''))
      | Some p \<Rightarrow>
          if \<not> truthy (paramsName p) then (tp, Rejected (Error ''Tool name is required''))
          else executeTool tp h
                 \<lparr>toolName = the (paramsName p),
                  arguments = (case paramsArguments p of
                                 Some a \<Rightarrow> a
                               | None \<Rightarrow> \<lparr>filterArg = None, taskNameArg = None, sourceArg = None\<rparr>)\<rparr>)"

section \<open>Vocabulary of the properties\<close>

text \<open>
  An event completes the execution with key \<open>k\<close> when it is the end event or the
  process-exit event of a task with that key. A list of timers is \<open>quiet\<close> for \<open>k\<close>
  when no event handled before any of them completes \<open>k\<close>.
\<close>

fun completionFor :: "string \<Rightarrow> Event \<Rightarrow> bool" where
  "completionFor k (DidEndTask task t0 t1) = (getTaskId task = k)"
| "completionFor k (DidEndTaskProcess task code) = (getTaskId task = k)"
| "completionFor k ev = False"

text \<open>
  An event consumes for \<open>k\<close> when it is the completion check of another call waiting on
  the key \<open>k\<close>.
\<close>

fun consumesFor :: "string \<Rightarrow> Event \<Rightarrow> bool" where
  "consumesFor k (OtherCheckCompletion taskId tName startTime now) = (taskId = k)"
| "consumesFor k ev = False"

fun isCheck :: "Timer \<Rightarrow> bool" where
  "isCheck (CheckCompletion now) = True"
| "isCheck Timeout = False"

definition quiet :: "string \<Rightarrow> (Event list \<times> Timer) list \<Rightarrow> bool" where
  "quiet k ts = list_all (\<lambda>(evs, tm). list_all (\<lambda>ev. \<not> completionFor k ev) evs) ts"








definition foldAsciiLetter :: "char \<Rightarrow> char" where
  "foldAsciiLetter c =
     (if (65::nat) \<le> of_char c \<and> of_char c \<le> (90::nat) then char_of (of_char c + (32::nat)) else c)"

definition foldAscii :: "string \<Rightarrow> string" where
  "foldAscii s = map foldAsciiLetter s"

section \<open>Example data\<close>

definition buildNpm :: Task where
  "buildNpm = \<lparr>Task.name = ''build'', source = ''npm'', groupKind = None, scope = Some Workspace,
                taskDefinition = ''{}'', execution = None, isBackground = False, problemMatchers = []\<rparr>"

definition buildGrunt :: Task where
  "buildGrunt = buildNpm\<lparr>Task.source := ''grunt''\<rparr>"

definition noTracking :: TaskProvider where
  "noTracking = \<lparr>taskExecutions = [], executionResults = []\<rparr>"

definition staleResult :: TaskExecutionResult where
  "staleResult = \<lparr>taskName = ''build'', exitCode = Some 0, success = True, taskOutput = None,
                   error = None, duration = 0\<rparr>"

definition staleTracking :: TaskProvider where
  "staleTracking = \<lparr>taskExecutions = [], executionResults = [(''npm-build-2'', staleResult)]\<rparr>"

text \<open>
  A host with the single task \<open>npm:build\<close> whose run starts and then hangs: the start
  event, two completion checks, the timeout. All its text is ASCII.
\<close>

definition hungHost :: Host where
  "hungHost = \<lparr>fetchTasks = Inr [buildNpm], hostExecuteTask = (\<lambda>task. None),
                hostTerminate = (\<lambda>task. None), hostTaskExecutions = [buildNpm], dateNow = 0,
                timers = [([DidStartTask buildNpm], CheckCompletion 100), ([], CheckCompletion 200),
                          ([], Timeout)],
                toLowerCase = foldAscii\<rparr>"

text \<open>
  The same host when the run ends before the first completion check, and when another
  call waiting on the same key checks first.
\<close>

definition fastHost :: Host where
  "fastHost = hungHost\<lparr>timers := [([DidStartTask buildNpm, DidEndTask buildNpm 40 41],
                                      CheckCompletion 100),
                                     ([], Timeout)]\<rparr>"

definition rivalHost :: Host where
  "rivalHost = hungHost\<lparr>timers := [([DidStartTask buildNpm,
                                        OtherCheckCompletion ''npm-build-2'' ''build'' 0 90],
                                       CheckCompletion 100),
                                      ([], CheckCompletion 200), ([], Timeout)]\<rparr>"

text \<open>The same host when no start event reaches the tracker.\<close>

definition silentHost :: Host where
  "silentHost = hungHost\<lparr>timers := [([], CheckCompletion 100), ([], CheckCompletion 200), ([], Timeout)]\<rparr>"

definition twoBuilds :: Host where
  "twoBuilds = hungHost\<lparr>fetchTasks := Inr [buildGrunt, buildNpm]\<rparr>"

definition brokenHost :: Host where
  "brokenHost = hungHost\<lparr>fetchTasks := Inl (Error ''no workspace'')\<rparr>"

definition noArguments :: ToolArguments where
  "noArguments = \<lparr>filterArg = None, taskNameArg = None, sourceArg = None\<rparr>"

definition executeBuild :: "string option \<Rightarrow> ToolCall" where
  "executeBuild src = \<lparr>toolName = ''execute_task'',
                        arguments = \<lparr>filterArg = None, taskNameArg = Some ''build'', sourceArg = src\<rparr>\<rparr>"






section \<open>The tracker under events\<close>

lemma handleEvents_Nil: "handleEvents tp [] = tp"
  by (simp add: handleEvents_def)

lemma handleEvents_Cons: "handleEvents tp (ev # evs) = handleEvents (handleEvent tp ev) evs"
  by (simp add: handleEvents_def)

lemma handleEvents_append: "handleEvents tp (xs @ ys) = handleEvents (handleEvents tp xs) ys"
  by (simp add: handleEvents_def)

text \<open>
  Only a completion event for \<open>k\<close> and another call's check on \<open>k\<close> touch the result
  buffered under \<open>k\<close>, and only a completion event for \<open>k\<close> can put one there.
\<close>

lemma handleEvent_result_kept:
  "\<not> completionFor k ev \<Longrightarrow> \<not> consumesFor k ev \<Longrightarrow>
   map_of (executionResults (handleEvent tp ev)) k = map_of (executionResults tp) k"
  by (cases ev)
    (auto simp: Let_def update_conv' delete_conv' checkCompletion_def split: option.splits)

lemma handleEvents_result_kept:
  "\<forall>ev \<in> set evs. \<not> completionFor k ev \<and> \<not> consumesFor k ev \<Longrightarrow>
   map_of (executionResults (handleEvents tp evs)) k = map_of (executionResults tp) k"
  by (induction evs arbitrary: tp)
    (simp_all add: handleEvents_Nil handleEvents_Cons handleEvent_result_kept)

lemma handleEvent_no_result_kept:
  "\<not> completionFor k ev \<Longrightarrow> map_of (executionResults tp) k = None \<Longrightarrow>
   map_of (executionResults (handleEvent tp ev)) k = None"
  by (cases ev)
    (auto simp: Let_def update_conv' delete_conv' checkCompletion_def split: option.splits)

lemma handleEvents_no_result_kept:
  "\<forall>ev \<in> set evs. \<not> completionFor k ev \<Longrightarrow> map_of (executionResults tp) k = None \<Longrightarrow>
   map_of (executionResults (handleEvents tp evs)) k = None"
  by (induction evs arbitrary: tp)
    (simp_all add: handleEvents_Nil handleEvents_Cons handleEvent_no_result_kept)

text \<open>Only the end event for \<open>k\<close> removes \<open>k\<close> from the active executions.\<close>

lemma handleEvent_active_kept:
  "\<not> completionFor k ev \<Longrightarrow> has (taskExecutions tp) k \<Longrightarrow>
   has (taskExecutions (handleEvent tp ev)) k"
  by (cases ev)
    (auto simp: has_def Let_def update_conv' delete_conv' checkCompletion_def split: option.splits)

lemma handleEvents_active_kept:
  "\<forall>ev \<in> set evs. \<not> completionFor k ev \<Longrightarrow> has (taskExecutions tp) k \<Longrightarrow>
   has (taskExecutions (handleEvents tp evs)) k"
  by (induction evs arbitrary: tp)
    (simp_all add: handleEvents_Nil handleEvents_Cons handleEvent_active_kept)

lemma handleEvent_registers:
  "has (taskExecutions (handleEvent tp (DidStartTask t))) (getTaskId t)"
  by (simp add: has_def update_conv')

lemma handleEvents_registers:
  "DidStartTask t \<in> set evs \<or> has (taskExecutions tp) (getTaskId t) \<Longrightarrow>
   \<forall>ev \<in> set evs. \<not> completionFor (getTaskId t) ev \<Longrightarrow>
   has (taskExecutions (handleEvents tp evs)) (getTaskId t)"
proof (induction evs arbitrary: tp)
  case Nil
  then show ?case by (simp add: handleEvents_Nil)
next
  case (Cons ev evs)
  have "DidStartTask t \<in> set evs \<or> has (taskExecutions (handleEvent tp ev)) (getTaskId t)"
  proof (cases "ev = DidStartTask t")
    case True
    then show ?thesis using handleEvent_registers [of tp t] by simp
  next
    case False
    with Cons.prems show ?thesis by (auto intro: handleEvent_active_kept)
  qed
  with Cons show ?case by (simp add: handleEvents_Cons)
qed

lemma quiet_Cons:
  "quiet k ((evs, tm) # ts) = ((\<forall>ev \<in> set evs. \<not> completionFor k ev) \<and> quiet k ts)"
  by (simp add: quiet_def list_all_iff)

lemma quiet_events: "quiet k ts \<Longrightarrow> \<forall>ev \<in> set (concat (map fst ts)). \<not> completionFor k ev"
  by (induction ts) (auto simp: quiet_def list_all_iff)

section \<open>The process-exit event after the end event\<close>

text \<open>
  C2. When a result is buffered under the key of a task, the process-exit event of that
  task with exit code \<open>c\<close> patches it: \<open>exitCode\<close> becomes \<open>c\<close> and \<open>success\<close> becomes
  \<open>c = 0\<close>, whatever \<open>success\<close> was. So after the end event and then the process-exit
  event of one task, the buffered result is the provisional one with \<open>exitCode = c\<close> and
  \<open>success = (c = 0)\<close>, and the next completion check of a call waiting on that key
  resolves with it; for \<open>c = 1\<close> this is \<open>success = False\<close>, \<open>exitCode = 1\<close>.
\<close>

theorem process_exit_patches_result:
  "(map_of (executionResults tp) (getTaskId task) = Some r \<longrightarrow>
      map_of (executionResults (handleEvent tp (DidEndTaskProcess task (Some c)))) (getTaskId task)
        = Some (r\<lparr>exitCode := Some c, success := (c = 0)\<rparr>)) \<and>
   map_of (executionResults (handleEvents tp [DidEndTask task t0 t1, DidEndTaskProcess task (Some c)]))
       (getTaskId task)
     = Some \<lparr>taskName = Task.name task, exitCode = Some c, success = (c = 0),
             taskOutput = None, error = None, duration = t1 - t0\<rparr> \<and>
   snd (awaitCompletion tp (getTaskId task) n st
          (([DidEndTask task t0 t1, DidEndTaskProcess task (Some c)], CheckCompletion now) # rest))
     = Resolved \<lparr>taskName = Task.name task, exitCode = Some c, success = (c = 0),
                 taskOutput = None, error = None, duration = t1 - t0\<rparr>"
  by (simp add: handleEvents_def Let_def update_conv' checkCompletion_def)

theorem process_exit_patches_result_witness:
  "map_of (executionResults (handleEvent staleTracking (DidEndTaskProcess buildNpm (Some 1))))
       ''npm-build-2''
     = Some \<lparr>taskName = ''build'', exitCode = Some 1, success = False, taskOutput = None,
             error = None, duration = 0\<rparr>"
  using process_exit_patches_result [of staleTracking buildNpm staleResult 1]
  by (simp add: staleTracking_def staleResult_def buildNpm_def getTaskId_def)

section \<open>Consuming a buffered result\<close>

text \<open>
  C5. A completion check that finds a result under the key resolves with it and removes
  it from \<open>executionResults\<close>. A second wait on the same key, started in the state the
  first one left and with the key not in \<open>taskExecutions\<close>, finds no result and resolves
  with the fallback: success, no exit code, the duration measured by the second wait.
\<close>

theorem result_consumed_once:
  assumes "map_of (executionResults tp) k = Some r"
  shows "checkCompletion tp k n st now =
           (tp\<lparr>executionResults := AList.delete k (executionResults tp)\<rparr>, Some r) \<and>
         awaitCompletion tp k n st (([], CheckCompletion now) # rest) =
           (tp\<lparr>executionResults := AList.delete k (executionResults tp)\<rparr>, Resolved r) \<and>
         map_of (executionResults (tp\<lparr>executionResults := AList.delete k (executionResults tp)\<rparr>)) k
           = None \<and>
         (\<not> has (taskExecutions tp) k \<longrightarrow>
            awaitCompletion (tp\<lparr>executionResults := AList.delete k (executionResults tp)\<rparr>) k n' st'
                (([], CheckCompletion now') # rest') =
              (tp\<lparr>executionResults := AList.delete k (executionResults tp)\<rparr>,
               Resolved \<lparr>taskName = n', exitCode = None, success = True, taskOutput = None,
                         error = None, duration = now' - st'\<rparr>))"
  using assms by (simp add: checkCompletion_def handleEvents_Nil delete_conv')

theorem result_consumed_once_witness:
  "awaitCompletion staleTracking ''npm-build-2'' ''build'' 0 [([], CheckCompletion 100)] =
     (noTracking, Resolved staleResult) \<and>
   awaitCompletion noTracking ''npm-build-2'' ''build'' 500 [([], CheckCompletion 600)] =
     (noTracking, Resolved \<lparr>taskName = ''build'', exitCode = None, success = True, taskOutput = None,
                            error = None, duration = 100\<rparr>)"
  using result_consumed_once [of staleTracking "''npm-build-2''" staleResult "''build''" 0 100 "[]"
      "''build''" 500 600 "[]"]
  by (simp add: staleTracking_def noTracking_def has_def)

text \<open>
  C10, as amended. When \<open>executeTask\<close> starts a run of a task while a result is already
  buffered under the task's key, and before the call's first completion check no end or
  process-exit event for that key is handled and no other pending call checks that key,
  then the call resolves at that first check with the buffered result and removes it;
  the new run's own end event plays no part.
\<close>

theorem stale_result_resolves_first_poll:
  assumes fetch: "fetchTasks h = Inr tasks"
    and found: "findTask tasks n src = Some t"
    and started: "hostExecuteTask h t = None"
    and stale: "map_of (executionResults tp) (getTaskId t) = Some r"
    and sched: "timers h = (evs0, CheckCompletion now) # rest"
    and q: "\<forall>ev \<in> set evs0. \<not> completionFor (getTaskId t) ev \<and> \<not> consumesFor (getTaskId t) ev"
  shows "executeTask tp h n src =
           ((handleEvents tp evs0)
              \<lparr>executionResults := AList.delete (getTaskId t) (executionResults (handleEvents tp evs0))\<rparr>,
            Resolved r) \<and>
         map_of (AList.delete (getTaskId t) (executionResults (handleEvents tp evs0))) (getTaskId t)
           = None"
proof -
  have "map_of (executionResults (handleEvents tp evs0)) (getTaskId t) = Some r"
    using q stale by (simp add: handleEvents_result_kept)
  then have "awaitCompletion tp (getTaskId t) n (dateNow h) (timers h) =
           ((handleEvents tp evs0)
              \<lparr>executionResults := AList.delete (getTaskId t) (executionResults (handleEvents tp evs0))\<rparr>,
            Resolved r)"
    by (simp add: sched checkCompletion_def)
  then show ?thesis
    using fetch found started by (simp add: executeTask_def delete_conv')
qed

theorem stale_result_resolves_first_poll_witness:
  "executeTask staleTracking hungHost ''build'' None =
     (\<lparr>taskExecutions = [(''npm-build-2'', buildNpm)], executionResults = []\<rparr>, Resolved staleResult)"
  using stale_result_resolves_first_poll [of hungHost "[buildNpm]" "''build''" None buildNpm
      staleTracking staleResult "[DidStartTask buildNpm]" 100 "[([], CheckCompletion 200), ([], Timeout)]"]
  by (simp add: hungHost_def staleTracking_def findTask_def buildNpm_def getTaskId_def handleEvents_def)

text \<open>
  C10 as stated fails in two ways, each with the result \<open>staleResult\<close> buffered under
  the key when the call starts. When the new run ends before the first completion check,
  its end event overwrites the buffered result and the call resolves with the new run's
  result (no exit code, duration 1). When another call waiting on the same key checks
  first, it takes the buffered result, and the new call finds none: here it checks again
  and is rejected by its timeout.
\<close>

theorem stale_result_counterexample:
  "map_of (executionResults staleTracking) (getTaskId buildNpm) = Some staleResult \<and>
   executeTask staleTracking fastHost ''build'' None =
     (noTracking,
      Resolved \<lparr>taskName = ''build'', exitCode = None, success = True, taskOutput = None,
                error = None, duration = 1\<rparr>) \<and>
   executeTask staleTracking rivalHost ''build'' None =
     (\<lparr>taskExecutions = [(''npm-build-2'', buildNpm)], executionResults = []\<rparr>,
      Rejected (Error (''Task '' @ quoted ''build'' @ '' timed out after 5 minutes'')))"
  by (simp add: fastHost_def rivalHost_def hungHost_def staleTracking_def staleResult_def noTracking_def
      findTask_def buildNpm_def getTaskId_def handleEvents_def executeTask_def checkCompletion_def
      has_def)

section \<open>The timeout\<close>

text \<open>
  While no result is buffered under \<open>k\<close>, \<open>k\<close> is active and no completion event for
  \<open>k\<close> arrives, every completion check sets its timer again.
\<close>

lemma awaitCompletion_polls:
  assumes "map_of (executionResults tp) k = None"
    and "has (taskExecutions tp) k"
    and "\<forall>(evs, tm) \<in> set polls. isCheck tm \<and> (\<forall>ev \<in> set evs. \<not> completionFor k ev)"
  shows "awaitCompletion tp k n st (polls @ rest) =
         awaitCompletion (handleEvents tp (concat (map fst polls))) k n st rest"
  using assms
proof (induction polls arbitrary: tp)
  case Nil
  then show ?case by (simp add: handleEvents_Nil)
next
  case (Cons p polls)
  obtain evs tm where p: "p = (evs, tm)" by (cases p)
  from Cons.prems(3) p obtain now where tm: "tm = CheckCompletion now"
    by (cases tm) auto
  from Cons.prems(3) p have q: "\<forall>ev \<in> set evs. \<not> completionFor k ev" by simp
  let ?tp = "handleEvents tp evs"
  have r: "map_of (executionResults ?tp) k = None"
    using q Cons.prems(1) by (rule handleEvents_no_result_kept)
  have a: "has (taskExecutions ?tp) k"
    using q Cons.prems(2) by (rule handleEvents_active_kept)
  have c: "checkCompletion ?tp k n st now = (?tp, None)"
    using r a by (simp add: checkCompletion_def)
  have "awaitCompletion tp k n st ((p # polls) @ rest) = awaitCompletion ?tp k n st (polls @ rest)"
    using c p tm by simp
  also have "\<dots> = awaitCompletion (handleEvents ?tp (concat (map fst polls))) k n st rest"
    using Cons.IH [OF r a] Cons.prems(3) by simp
  finally show ?case using p by (simp add: handleEvents_append)
qed

lemma awaitCompletion_times_out:
  assumes nores: "map_of (executionResults tp) k = None"
    and act: "has (taskExecutions tp) k"
    and polls: "list_all (\<lambda>p. isCheck (snd p)) polls"
    and q: "quiet k (polls @ [(evsT, Timeout)])"
  shows "awaitCompletion tp k n st (polls @ (evsT, Timeout) # rest) =
           (handleEvents tp (concat (map fst polls) @ evsT),
            Rejected (Error (''Task '' @ quoted n @ '' timed out after 5 minutes'')))"
    and "has (taskExecutions (handleEvents tp (concat (map fst polls) @ evsT))) k"
proof -
  have p: "\<forall>(evs, tm) \<in> set polls. isCheck tm \<and> (\<forall>ev \<in> set evs. \<not> completionFor k ev)"
    using polls q by (auto simp: quiet_def list_all_iff)
  have e: "\<forall>ev \<in> set (concat (map fst polls) @ evsT). \<not> completionFor k ev"
    using quiet_events [OF q] by simp
  show a: "has (taskExecutions (handleEvents tp (concat (map fst polls) @ evsT))) k"
    using e act by (rule handleEvents_active_kept)
  show "awaitCompletion tp k n st (polls @ (evsT, Timeout) # rest) =
           (handleEvents tp (concat (map fst polls) @ evsT),
            Rejected (Error (''Task '' @ quoted n @ '' timed out after 5 minutes'')))"
    using a by (simp add: awaitCompletion_polls [OF nores act p] handleEvents_append)
qed

text \<open>
  C4, as amended. Let \<open>execute_task\<close> find the task and start it, with no result buffered
  under the task's key when the call starts, and with the key in \<open>taskExecutions\<close> at the
  first completion check (the start event is among the events handled before it, or the
  key was active already). If the timers that fire are a completion check, then more
  completion checks, then the timeout, and no end or process-exit event for the key is
  handled before any of them, then the tool returns the error outcome whose text names
  the timeout, the tracker's state is the one the events left (the timeout changes
  nothing), and the key is still in \<open>taskExecutions\<close>.
\<close>

theorem timeout_when_registered:
  assumes fetch: "fetchTasks h = Inr tasks"
    and found: "findTask tasks n src = Some t"
    and started: "hostExecuteTask h t = None"
    and named: "n \<noteq> []"
    and nores: "map_of (executionResults tp) (getTaskId t) = None"
    and reg: "DidStartTask t \<in> set evs0 \<or> has (taskExecutions tp) (getTaskId t)"
    and sched: "timers h = (evs0, CheckCompletion now0) # polls @ (evsT, Timeout) # rest"
    and polls: "list_all (\<lambda>p. isCheck (snd p)) polls"
    and q: "quiet (getTaskId t) ((evs0, CheckCompletion now0) # polls @ [(evsT, Timeout)])"
  shows "executeTool tp h \<lparr>toolName = ''execute_task'',
                          arguments = \<lparr>filterArg = fl, taskNameArg = Some n, sourceArg = src\<rparr>\<rparr> =
           (handleEvents tp (evs0 @ concat (map fst polls) @ evsT),
            Resolved \<lparr>content = ''Error executing tool '' @ quoted ''execute_task'' @ '': Task '' @
                                 quoted n @ '' timed out after 5 minutes'',
                      isError = Some True\<rparr>)
         \<and> has (taskExecutions (handleEvents tp (evs0 @ concat (map fst polls) @ evsT))) (getTaskId t)"
proof -
  let ?k = "getTaskId t"
  let ?tp0 = "handleEvents tp evs0"
  from q have q0: "\<forall>ev \<in> set evs0. \<not> completionFor ?k ev"
    and q1: "quiet ?k (polls @ [(evsT, Timeout)])"
    by (simp_all add: quiet_Cons)
  have r0: "map_of (executionResults ?tp0) ?k = None"
    using q0 nores by (rule handleEvents_no_result_kept)
  have a0: "has (taskExecutions ?tp0) ?k"
    using reg q0 by (rule handleEvents_registers)
  have c0: "checkCompletion ?tp0 ?k n (dateNow h) now0 = (?tp0, None)"
    using r0 a0 by (simp add: checkCompletion_def)
  have aw: "awaitCompletion tp ?k n (dateNow h) (timers h) =
              (handleEvents tp (evs0 @ concat (map fst polls) @ evsT),
               Rejected (Error (''Task '' @ quoted n @ '' timed out after 5 minutes'')))"
    using c0 awaitCompletion_times_out(1) [OF r0 a0 polls q1]
    by (simp add: sched handleEvents_append)
  have ex: "executeTask tp h n src =
              (handleEvents tp (evs0 @ concat (map fst polls) @ evsT),
               Rejected (Error (''Task '' @ quoted n @ '' timed out after 5 minutes'')))"
    using fetch found started aw by (simp add: executeTask_def)
  have "has (taskExecutions (handleEvents tp (evs0 @ concat (map fst polls) @ evsT))) ?k"
    using awaitCompletion_times_out(2) [OF r0 a0 polls q1] by (simp add: handleEvents_append)
  then show ?thesis
    using ex named by (simp add: executeTool_def dispatch_def executeTask_tool_def)
qed

theorem timeout_when_registered_witness:
  "executeTool noTracking hungHost (executeBuild (Some ''npm'')) =
     (\<lparr>taskExecutions = [(''npm-build-2'', buildNpm)], executionResults = []\<rparr>,
      Resolved \<lparr>content = ''Error executing tool '' @ quoted ''execute_task'' @ '': Task '' @
                           quoted ''build'' @ '' timed out after 5 minutes'',
                isError = Some True\<rparr>)
   \<and> has [(''npm-build-2'', buildNpm)] ''npm-build-2''"
  using timeout_when_registered [of hungHost "[buildNpm]" "''build''" "Some ''npm''" buildNpm
      noTracking "[DidStartTask buildNpm]" 100 "[([], CheckCompletion 200)]" "[]" "[]" None]
  by (simp add: hungHost_def executeBuild_def noTracking_def findTask_def buildNpm_def getTaskId_def
      quiet_def handleEvents_def)

text \<open>
  C4 as stated fails in two ways, each with no end or process-exit event for the key
  among the timers. With a result already buffered under the key (here the one left by
  an earlier run of the task that no call waited for), the first completion check
  resolves with it and the tool reports success. With no start event handled, the key
  is not in \<open>taskExecutions\<close> at the first check, which resolves with the fallback, and
  the key is not there afterwards either.
\<close>

theorem timeout_counterexample:
  "handleEvents noTracking
       [DidStartTask buildNpm, DidEndTask buildNpm 7 7, DidEndTaskProcess buildNpm (Some 0)] =
     staleTracking \<and>
   quiet (getTaskId buildNpm) (timers hungHost) \<and>
   executeTool staleTracking hungHost (executeBuild None) =
     (\<lparr>taskExecutions = [(''npm-build-2'', buildNpm)], executionResults = []\<rparr>,
      Resolved \<lparr>content = ''Task '' @ quoted ''build'' @ '' execution SUCCESS (exit code: 0)'' @ nl @
                           ''Duration: 0ms'',
                isError = Some False\<rparr>) \<and>
   quiet (getTaskId buildNpm) (timers silentHost) \<and>
   executeTool noTracking silentHost (executeBuild None) =
     (noTracking,
      Resolved \<lparr>content = ''Task '' @ quoted ''build'' @ '' execution SUCCESS'' @ nl @
                           ''Duration: 100ms'',
                isError = Some False\<rparr>) \<and>
   \<not> has (taskExecutions noTracking) (getTaskId buildNpm)"
  by (simp add: hungHost_def silentHost_def executeBuild_def staleTracking_def staleResult_def
      noTracking_def findTask_def buildNpm_def getTaskId_def quiet_def handleEvents_def executeTool_def
      dispatch_def executeTask_tool_def executeTask_def checkCompletion_def responseText_def
      showInt_def digit_def has_def)

section \<open>Filtering the task list\<close>























section \<open>Looking a task up by name and source\<close>

text \<open>
  The second search of \<open>findTask\<close> runs only when the first found nothing, and then it
  finds nothing either: the result is the first task with the name, whatever the source
  argument is.
\<close>

lemma findTask_first_name_match: "findTask tasks n src = find (\<lambda>task. Task.name task = n) tasks"
proof (cases "find (\<lambda>task. Task.name task = n) tasks")
  case None
  then have "\<forall>task \<in> set tasks. Task.name task \<noteq> n" by (simp add: find_None_iff)
  then have "find (\<lambda>task. Task.name task = n \<and> Some (Task.source task) = src) tasks = None"
    by (auto simp: find_None_iff)
  with None show ?thesis by (simp add: findTask_def)
next
  case (Some t)
  then show ?thesis by (simp add: findTask_def)
qed

text \<open>
  C1. With the tasks \<open>grunt:build\<close> and \<open>npm:build\<close> enumerated in this order and the
  source argument \<open>npm\<close>, both lookups select the \<open>grunt\<close> task: \<open>executeTask\<close> would run
  it, and \<open>getTaskDetails\<close> renders \<open>Source: grunt\<close>. The claim asks for the \<open>npm\<close> task
  here.
\<close>

theorem source_argument_ignored:
  "findTask [buildGrunt, buildNpm] ''build'' (Some ''npm'') = Some buildGrunt \<and>
   getTaskDetails twoBuilds \<lparr>filterArg = None, taskNameArg = Some ''build'', sourceArg = Some ''npm''\<rparr> =
     Resolved \<lparr>content = join nl [''Task Details for '' @ quoted ''build'' @ '':'', ''Source: grunt'',
                                   ''Group: none'', ''Scope: workspace'', ''Background: false'',
                                   ''Definition: {}''],
               isError = None\<rparr>"
  by (simp add: findTask_def buildGrunt_def buildNpm_def twoBuilds_def hungHost_def getTaskDetails_def
      getAllTasks_def findTaskInfo_def details_def groupOf_def scopeOf_def getExecutionInfo_def
      showBool_def)

section \<open>A name that no task has\<close>

text \<open>
  C6, as amended. When the enumeration succeeds and no task has the name \<open>n\<close>,
  \<open>executeTask\<close> of the provider rejects with a message that lists every enumerated
  \<open>source:name\<close> pair, for every \<open>n\<close>; and for every non-empty \<open>n\<close> the tool
  \<open>execute_task\<close> returns the outcome with \<open>isError = true\<close> whose text carries that
  message.
\<close>

theorem unknown_task_lists_available:
  assumes "fetchTasks h = Inr tasks"
    and "\<forall>task \<in> set tasks. Task.name task \<noteq> n"
  shows "executeTask tp h n src =
           (tp, Rejected (Error (''Failed to execute task '' @ quoted n @ '': Task '' @ quoted n @
                                 '' not found. Available tasks: '' @ availableTasks tasks))) \<and>
         (n \<noteq> [] \<longrightarrow>
            executeTool tp h \<lparr>toolName = ''execute_task'',
                             arguments = \<lparr>filterArg = fl, taskNameArg = Some n, sourceArg = src\<rparr>\<rparr> =
              (tp, Resolved \<lparr>content = ''Error executing tool '' @ quoted ''execute_task'' @
                                        '': Failed to execute task '' @ quoted n @ '': Task '' @ quoted n @
                                        '' not found. Available tasks: '' @ availableTasks tasks,
                            isError = Some True\<rparr>))"
proof -
  from assms(2) have "findTask tasks n src = None"
    by (simp add: findTask_first_name_match find_None_iff)
  then have "executeTask tp h n src =
           (tp, Rejected (Error (''Failed to execute task '' @ quoted n @ '': Task '' @ quoted n @
                                 '' not found. Available tasks: '' @ availableTasks tasks)))"
    using assms(1) by (simp add: executeTask_def)
  then show ?thesis
    by (simp add: executeTool_def dispatch_def executeTask_tool_def)
qed

theorem unknown_task_lists_available_witness:
  "executeTool noTracking twoBuilds
       \<lparr>toolName = ''execute_task'',
        arguments = \<lparr>filterArg = None, taskNameArg = Some ''deploy'', sourceArg = None\<rparr>\<rparr> =
     (noTracking, Resolved \<lparr>content = ''Error executing tool '' @ quoted ''execute_task'' @
                               '': Failed to execute task '' @ quoted ''deploy'' @ '': Task '' @
                               quoted ''deploy'' @ '' not found. Available tasks: grunt:build, npm:build'',
                            isError = Some True\<rparr>)"
  using unknown_task_lists_available [of twoBuilds "[buildGrunt, buildNpm]" "''deploy''" noTracking
      None None]
  by (simp add: twoBuilds_def hungHost_def buildGrunt_def buildNpm_def availableTasks_def)

text \<open>
  C6 as stated fails for the empty name: no task has it, and the tool answers
  \<open>taskName is required\<close>, a text in which the available pair \<open>npm:build\<close> does not occur.
\<close>

theorem empty_name_counterexample:
  "findTask [buildNpm] [] None = None \<and>
   executeTool noTracking hungHost
       \<lparr>toolName = ''execute_task'',
        arguments = \<lparr>filterArg = None, taskNameArg = Some [], sourceArg = None\<rparr>\<rparr> =
     (noTracking, Resolved \<lparr>content = ''Error executing tool '' @ quoted ''execute_task'' @
                                       '': taskName is required'',
                            isError = Some True\<rparr>) \<and>
   \<not> includes_str (''Error executing tool '' @ quoted ''execute_task'' @ '': taskName is required'')
        (availableTasks [buildNpm])"
  by (simp add: findTask_def buildNpm_def executeTool_def dispatch_def executeTask_tool_def
      availableTasks_def quoted_def)

section \<open>Terminating a task that is not running\<close>

text \<open>
  C7. When no execution stored in \<open>taskExecutions\<close> has the task name \<open>n\<close>,
  \<open>terminateTask\<close> of the provider returns \<open>false\<close>, the tool \<open>terminate_task\<close> resolves
  (it does not reject) with an outcome whose \<open>isError\<close> is \<open>true\<close> and leaves the tracker
  as it was, and for a non-empty \<open>n\<close> that outcome is the rendering of \<open>false\<close>.
\<close>

theorem terminate_without_active_execution:
  assumes "\<forall>exec \<in> set (map snd (taskExecutions tp)). Task.name exec \<noteq> n"
  shows "terminateTask tp h n = False \<and>
         (\<exists>out. executeTool tp h \<lparr>toolName = ''terminate_task'',
                                   arguments = \<lparr>filterArg = fl, taskNameArg = Some n, sourceArg = src\<rparr>\<rparr>
                  = (tp, Resolved out) \<and> isError out = Some True) \<and>
         (n \<noteq> [] \<longrightarrow>
            terminateTask_tool tp h \<lparr>filterArg = fl, taskNameArg = Some n, sourceArg = src\<rparr> =
              Resolved \<lparr>content = ''Failed to terminate task '' @ quoted n @
                                   ''. Task may not be running or termination failed.'',
                        isError = Some True\<rparr>)"
proof -
  from assms have "find (\<lambda>exec. Task.name exec = n) (map snd (taskExecutions tp)) = None"
    by (simp add: find_None_iff)
  then have f: "terminateTask tp h n = False"
    by (simp add: terminateTask_def)
  then show ?thesis
    by (simp add: executeTool_def dispatch_def terminateTask_tool_def)
qed

theorem terminate_without_active_execution_witness:
  "terminateTask noTracking hungHost ''build'' = False \<and>
   terminateTask_tool noTracking hungHost
       \<lparr>filterArg = None, taskNameArg = Some ''build'', sourceArg = None\<rparr> =
     Resolved \<lparr>content = ''Failed to terminate task '' @ quoted ''build'' @
                          ''. Task may not be running or termination failed.'',
               isError = Some True\<rparr>"
  using terminate_without_active_execution [of noTracking "''build''" hungHost None None]
  by (simp add: noTracking_def)

section \<open>Failures inside a tool\<close>

text \<open>
  C8. For every tool name, every arguments object and every state of tracker and host,
  \<open>executeTool\<close> never ends in a rejection; and whenever the tool selected by the
  \<open>switch\<close> (or the \<open>default\<close> branch) fails with \<open>e'\<close>, \<open>executeTool\<close> resolves with the
  outcome whose \<open>isError\<close> is \<open>true\<close> and whose text is
  \<open>Error executing tool '<name>': <message of e'>\<close>. So \<open>handleToolsCall\<close>, given a
  tool name, never ends in a rejection either.
\<close>

theorem executeTool_converts_failures:
  "snd (executeTool tp h toolCall) \<noteq> Rejected e \<and>
   (dispatch tp h toolCall = (tp', Rejected e') \<longrightarrow>
      executeTool tp h toolCall =
        (tp', Resolved \<lparr>content = ''Error executing tool '' @ quoted (toolName toolCall) @ '': '' @
                                   message e',
                         isError = Some True\<rparr>)) \<and>
   (truthy (paramsName p) \<longrightarrow> snd (handleToolsCall tp h (Some p)) \<noteq> Rejected e)"
  by (auto simp: executeTool_def handleToolsCall_def split: prod.splits promise.splits)

theorem executeTool_converts_failures_witness:
  "executeTool noTracking brokenHost \<lparr>toolName = ''list_tasks'', arguments = noArguments\<rparr> =
     (noTracking, Resolved \<lparr>content = ''Error executing tool '' @ quoted ''list_tasks'' @
                                       '': Failed to fetch tasks: no workspace'',
                            isError = Some True\<rparr>)"
  using executeTool_converts_failures [of noTracking brokenHost
      "\<lparr>toolName = ''list_tasks'', arguments = noArguments\<rparr>" Thrown noTracking
      "Error ''Failed to fetch tasks: no workspace''"
      "\<lparr>paramsName = Some ''list_tasks'', paramsArguments = None\<rparr>"]
  by (simp add: dispatch_def listTasks_def getAllTasks_def brokenHost_def)

section \<open>A call without \<open>taskName\<close>\<close>

text \<open>
  C9, as amended. For \<open>execute_task\<close> and \<open>terminate_task\<close> with \<open>taskName\<close> missing
  (absent or the empty string), the tool's own method fails with
  \<open>taskName is required\<close> as its first step, and \<open>handleToolsCall\<close> does not reject: it
  returns the outcome that \<open>executeTool\<close> makes of that failure, with \<open>isError = true\<close>.
  The outcome is the same for every host and the tracker is unchanged: the provider's
  \<open>executeTask\<close> and \<open>terminateTask\<close> are not reached.
\<close>

theorem missing_taskName_rejected_by_tool:
  assumes "nm = ''execute_task'' \<or> nm = ''terminate_task''"
    and "\<not> truthy (taskNameArg as)"
  shows "dispatch tp h \<lparr>toolName = nm, arguments = as\<rparr> = (tp, Rejected (Error ''taskName is required'')) \<and>
         handleToolsCall tp h (Some \<lparr>paramsName = Some nm, paramsArguments = Some as\<rparr>) =
           (tp, Resolved \<lparr>content = ''Error executing tool '' @ quoted nm @ '': taskName is required'',
                         isError = Some True\<rparr>) \<and>
         handleToolsCall tp h (Some \<lparr>paramsName = Some nm, paramsArguments = None\<rparr>) =
           (tp, Resolved \<lparr>content = ''Error executing tool '' @ quoted nm @ '': taskName is required'',
                         isError = Some True\<rparr>)"
  using assms
  by (auto simp: handleToolsCall_def executeTool_def dispatch_def executeTask_tool_def
      terminateTask_tool_def)

theorem missing_taskName_rejected_by_tool_witness:
  "handleToolsCall staleTracking hungHost
       (Some \<lparr>paramsName = Some ''terminate_task'', paramsArguments = Some noArguments\<rparr>) =
     (staleTracking, Resolved \<lparr>content = ''Error executing tool '' @ quoted ''terminate_task'' @
                                          '': taskName is required'',
                               isError = Some True\<rparr>)"
  using missing_taskName_rejected_by_tool [of "''terminate_task''" noArguments staleTracking hungHost]
  by (simp add: noArguments_def)

text \<open>
  C9 as stated fails: the dispatcher \<open>handleToolsCall\<close> does not reject the call
  \<open>execute_task\<close> without \<open>taskName\<close>; it resolves with an outcome, and that outcome is
  the one \<open>executeTool\<close> builds from a failure raised inside the tool's method.
\<close>

theorem missing_taskName_counterexample:
  "handleToolsCall noTracking hungHost
       (Some \<lparr>paramsName = Some ''execute_task'', paramsArguments = Some noArguments\<rparr>) =
     (noTracking, Resolved \<lparr>content = ''Error executing tool '' @ quoted ''execute_task'' @
                                       '': taskName is required'',
                            isError = Some True\<rparr>) \<and>
   executeTask_tool noTracking hungHost noArguments =
     (noTracking, Rejected (Error ''taskName is required''))"
  by (simp add: handleToolsCall_def executeTool_def dispatch_def executeTask_tool_def noArguments_def)

end
